theory Spec2Isabelle
  imports Complex_Main
begin

section \<open>Payslip selector: from an analysis to a fiche de paie\<close>

text \<open>
  The development follows the selector module that turns the result of the rule engine
  (an analysis) into a payslip. JavaScript numbers are modelled as exact reals; objects with
  a declared Flow type are records whose optional fields are options (\<open>None\<close> is
  \<open>undefined\<close>); a thrown exception is the left injection of a sum.
  Identifiers lose their accents, since only ASCII names are available, and the accented
  letters of string constants are the single characters of their Latin-1 code.
\<close>

subsection \<open>Data model\<close>

text \<open>The type \<open>Branche\<close>, in the order of its declaration.\<close>

datatype Branche =
    Sante
  | AccidentsDuTravail
  | Retraite
  | Famille
  | AssuranceChomage
  | Logement
  | Autres

text \<open>The two values declared for the payer field (\<open>du par\<close>): the employee and the employer.\<close>

datatype DuPar = Salarie | Employeur

record Regle =
  nom :: string
  lien :: string

record RegleAvecMontant = Regle +
  montant :: real

record MontantPartage =
  partSalariale :: real
  partPatronale :: real

text \<open>
  A \<open>Cotisation\<close> is a \<open>Regle\<close> with a branch and a shared amount. Its field \<open>montant\<close>
  is named \<open>montantPartage\<close> here, to keep it apart from the numeric \<open>montant\<close> of
  \<open>RegleAvecMontant\<close>.
\<close>

record Cotisation = Regle +
  branche :: Branche
  montantPartage :: MontantPartage

type_synonym Cotisations = "(Branche \<times> Cotisation list option) list"

definition COTISATION_BRANCHE_ORDER :: "Branche list" where
  "COTISATION_BRANCHE_ORDER =
     [Sante, AccidentsDuTravail, Retraite, Famille, AssuranceChomage, Logement, Autres]"

text \<open>
  The objects found under \<open>cotisation\<close> and \<open>taxe\<close>: both fields are optional.
\<close>

record Attribution =
  duPar :: "DuPar option"
  attr_branche :: "Branche option"

record Explanation =
  expl_cotisation :: "Attribution option"
  expl_taxe :: "Attribution option"

text \<open>
  \<open>VariableWithCotisation\<close>. The declared type has no field \<open>taxe\<close> at top level, yet the
  selectors read it and the type is not exact, so the field is kept, optional like the
  others read through \<open>path\<close>.
\<close>

record VariableWithCotisation =
  dottedName :: string
  nodeValue :: real
  cotisation :: "Attribution option"
  taxe :: "Attribution option"
  explanation :: "Explanation option"

datatype error =
    MissingRuleCatalog
  | RuleNotFound string
  | MissingAnalysis
  | RuleNotFoundInAnalysis string
  | TypeError

definition BLANK_COTISATION :: Cotisation where
  "BLANK_COTISATION =
     \<lparr>nom = ''ERROR_SHOULD_BE_INSTANCIATED'', lien = ''ERROR_SHOULD_BE_INSTANCIATED'',
      branche = Autres, montantPartage = \<lparr>partSalariale = 0, partPatronale = 0\<rparr>\<rparr>"

subsection \<open>Payer and branch selectors\<close>

text \<open>
  \<open>path(p, variable)\<close> for the four paths of each selector, in the order of the source.
  A missing object on the way gives \<open>undefined\<close>.
\<close>

definition duPar_paths :: "VariableWithCotisation \<Rightarrow> DuPar option list" where
  "duPar_paths v =
     [Option.bind (cotisation v) duPar,
      Option.bind (taxe v) duPar,
      Option.bind (Option.bind (explanation v) expl_cotisation) duPar,
      Option.bind (Option.bind (explanation v) expl_taxe) duPar]"

definition branche_paths :: "VariableWithCotisation \<Rightarrow> Branche option list" where
  "branche_paths v =
     [Option.bind (cotisation v) attr_branche,
      Option.bind (taxe v) attr_branche,
      Option.bind (Option.bind (explanation v) expl_cotisation) attr_branche,
      Option.bind (Option.bind (explanation v) expl_taxe) attr_branche]"

text \<open>
  \<open>xs.filter(Boolean)[0]\<close>: every value of the two enumerations is a non-empty string,
  hence truthy, so the filter keeps exactly the defined entries; index 0 of an empty array
  is \<open>undefined\<close>.
\<close>

fun filterBoolean_first :: "'a option list \<Rightarrow> 'a option" where
  "filterBoolean_first [] = None"
| "filterBoolean_first (None # xs) = filterBoolean_first xs"
| "filterBoolean_first (Some x # xs) = Some x"

definition duParSelector :: "VariableWithCotisation \<Rightarrow> DuPar option" where
  "duParSelector v = filterBoolean_first (duPar_paths v)"

definition brancheSelector :: "VariableWithCotisation \<Rightarrow> Branche" where
  "brancheSelector v =
     (case filterBoolean_first (branche_paths v) of None \<Rightarrow> Autres | Some b \<Rightarrow> b)"

subsection \<open>Merging\<close>

text \<open>
  \<open>mergeWith(add, a, b)\<close> on two amounts that carry both keys, and on the one-key object
  \<open>{[key]: value}\<close> that \<open>variableToCotisation\<close> builds.
\<close>

datatype Part = PartSalariale | PartPatronale

definition mergeWith_add :: "MontantPartage \<Rightarrow> MontantPartage \<Rightarrow> MontantPartage" where
  "mergeWith_add a b =
     \<lparr>partSalariale = partSalariale a + partSalariale b,
      partPatronale = partPatronale a + partPatronale b\<rparr>"

definition mergeWith_add_key :: "MontantPartage \<Rightarrow> Part \<Rightarrow> real \<Rightarrow> MontantPartage" where
  "mergeWith_add_key a k x =
     (case k of
        PartSalariale \<Rightarrow> a\<lparr>partSalariale := partSalariale a + x\<rparr>
      | PartPatronale \<Rightarrow> a\<lparr>partPatronale := partPatronale a + x\<rparr>)"

text \<open>\<open>mergeCotisations\<close>: amounts are added key by key, every other key is taken from \<open>b\<close>.\<close>

definition mergeCotisations :: "Cotisation \<Rightarrow> Cotisation \<Rightarrow> Cotisation" where
  "mergeCotisations a b =
     \<lparr>nom = nom b, lien = lien b, branche = branche b,
      montantPartage = mergeWith_add (montantPartage a) (montantPartage b)\<rparr>"

definition variableToCotisation ::
  "(string \<Rightarrow> error + Regle) \<Rightarrow> VariableWithCotisation \<Rightarrow> error + Cotisation" where
  "variableToCotisation regleLocalisee v =
     (case regleLocalisee (dottedName v) of
        Inl e \<Rightarrow> Inl e
      | Inr r \<Rightarrow>
          Inr \<lparr>nom = nom r, lien = lien r, branche = brancheSelector v,
               montantPartage =
                 mergeWith_add_key (montantPartage BLANK_COTISATION)
                   (if duParSelector v = Some Salarie then PartSalariale else PartPatronale)
                   (nodeValue v)\<rparr>)"

subsection \<open>The fixed dotted names\<close>

definition contrat_salarie :: string where
  "contrat_salarie = ''contrat salari'' @ [CHR 0xE9]"

definition n_cotisations_salariales :: string where
  "n_cotisations_salariales = contrat_salarie @ '' . cotisations salariales''"

definition n_cotisations_patronales :: string where
  "n_cotisations_patronales = contrat_salarie @ '' . cotisations patronales''"

definition n_reductions_de_cotisations :: string where
  "n_reductions_de_cotisations =
     contrat_salarie @ '' . r'' @ [CHR 0xE9] @ ''ductions de cotisations''"

definition n_salaire_brut_de_base :: string where
  "n_salaire_brut_de_base = contrat_salarie @ '' . salaire . brut de base''"

definition n_avantages_en_nature :: string where
  "n_avantages_en_nature = contrat_salarie @ '' . avantages en nature . montant''"

definition n_salaire_brut :: string where
  "n_salaire_brut = contrat_salarie @ '' . salaire . brut''"

definition n_salaire_total :: string where
  "n_salaire_total = contrat_salarie @ '' . salaire . total''"

definition n_salaire_net :: string where
  "n_salaire_net = contrat_salarie @ '' . salaire . net''"

definition n_salaire_net_imposable :: string where
  "n_salaire_net_imposable = contrat_salarie @ '' . salaire . net imposable''"

definition n_salaire_net_a_payer :: string where
  "n_salaire_net_a_payer = contrat_salarie @ '' . salaire . net '' @ [CHR 0xE0] @ '' payer''"

subsection \<open>Analysis and rule catalog\<close>

text \<open>
  Modelled from the spec: the type \<open>Analysis\<close> (its declaration is not among the sources).
  An analysis has a cache from dotted names to evaluated nodes and a sequence of targets;
  a node carries its dotted name, a numeric value that may be absent, and, under the path
  \<open>explanation.formule.explanation.explanation\<close>, the list of the variables it sums,
  which may be absent too. The cache is a plain map: inherited object properties are not
  modelled.
\<close>

record EvaluatedNode =
  node_dottedName :: string
  node_nodeValue :: "real option"
  node_variables :: "VariableWithCotisation list option"

record Analysis =
  cache :: "string \<Rightarrow> EvaluatedNode option"
  targets :: "EvaluatedNode list"

text \<open>
  Modelled from the spec: the module \<open>Engine/rules\<close> is not among the sources. The catalog
  is opaque (a type variable) and is queried only through \<open>findRuleByDottedName\<close>, which
  gives the rule or nothing; \<open>encodeRuleName\<close> turns a dotted name into a piece of link.
  Both functions are parameters of the model, gathered in one record.
\<close>

record FlatRule =
  titre :: "string option"
  rule_nom :: string

record 'fr Rules =
  findRuleByDottedName :: "'fr \<Rightarrow> string \<Rightarrow> FlatRule option"
  encodeRuleName :: "string \<Rightarrow> string"

subsection \<open>Errors in sequence\<close>

text \<open>
  \<open>mapE f xs\<close> is \<open>xs.map(f)\<close> when \<open>f\<close> may throw: the first exception, in the order
  of the list, ends the traversal.
\<close>

fun mapE :: "('a \<Rightarrow> error + 'b) \<Rightarrow> 'a list \<Rightarrow> error + 'b list" where
  "mapE f [] = Inr []"
| "mapE f (x # xs) =
     (case f x of
        Inl e \<Rightarrow> Inl e
      | Inr y \<Rightarrow> (case mapE f xs of Inl e \<Rightarrow> Inl e | Inr ys \<Rightarrow> Inr (y # ys)))"

definition bindE :: "error + 'a \<Rightarrow> ('a \<Rightarrow> error + 'b) \<Rightarrow> error + 'b" where
  "bindE m f = (case m of Inl e \<Rightarrow> Inl e | Inr x \<Rightarrow> f x)"

subsection \<open>Grouping\<close>

text \<open>
  \<open>groupBy(prop('dottedName'))\<close> followed by \<open>values\<close>: the object built by \<open>groupBy\<close>
  is an association list in the order in which the keys first occur, each group in the
  order of the input. (Keys that look like array indices, which JavaScript would list
  first, do not occur among dotted names.)
\<close>

fun groupBy_add :: "string \<Rightarrow> 'a \<Rightarrow> (string \<times> 'a list) list \<Rightarrow> (string \<times> 'a list) list" where
  "groupBy_add k x [] = [(k, [x])]"
| "groupBy_add k x ((k', g) # rest) =
     (if k = k' then (k', g @ [x]) # rest else (k', g) # groupBy_add k x rest)"

definition groupBy :: "('a \<Rightarrow> string) \<Rightarrow> 'a list \<Rightarrow> (string \<times> 'a list) list" where
  "groupBy f xs = foldl (\<lambda>acc x. groupBy_add (f x) x acc) [] xs"

definition values_of :: "(string \<times> 'a list) list \<Rightarrow> 'a list list" where
  "values_of obj = map snd obj"

text \<open>
  \<open>groupByBranche\<close>: the reducer puts each contribution in front of the bucket of its
  branch (\<open>acc[branche] || []\<close> starts a bucket); the result pairs every branch of
  \<open>COTISATION_BRANCHE_ORDER\<close> with \<open>cotisationsMap[branche]\<close>, which is \<open>undefined\<close>
  (\<open>None\<close>) for a branch that received nothing.
\<close>

definition groupByBranche_step ::
  "(Branche \<Rightarrow> Cotisation list option) \<Rightarrow> Cotisation \<Rightarrow> (Branche \<Rightarrow> Cotisation list option)" where
  "groupByBranche_step acc c =
     acc(branche c \<mapsto> c # (case acc (branche c) of None \<Rightarrow> [] | Some l \<Rightarrow> l))"

definition groupByBranche :: "Cotisation list \<Rightarrow> Cotisations" where
  "groupByBranche cs =
     (let cotisationsMap = foldl groupByBranche_step Map.empty cs
      in map (\<lambda>b. (b, cotisationsMap b)) COTISATION_BRANCHE_ORDER)"

subsection \<open>From the analysis to the contributions\<close>

definition pathOr_variables :: "EvaluatedNode option \<Rightarrow> VariableWithCotisation list" where
  "pathOr_variables n =
     (case n of
        None \<Rightarrow> []
      | Some node \<Rightarrow> (case node_variables node of None \<Rightarrow> [] | Some vs \<Rightarrow> vs))"

definition analysis_variables :: "Analysis \<Rightarrow> VariableWithCotisation list" where
  "analysis_variables a =
     foldl (@) []
       (map pathOr_variables
          (map (cache a) [n_cotisations_salariales, n_cotisations_patronales]))"

definition nonZero :: "Cotisation \<Rightarrow> bool" where
  "nonZero c \<longleftrightarrow>
     partPatronale (montantPartage c) \<noteq> 0 \<or> partSalariale (montantPartage c) \<noteq> 0"

text \<open>The part of the pipe before \<open>groupByBranche\<close>: group, normalise, merge, filter.\<close>

definition mergedCotisations ::
  "(string \<Rightarrow> error + Regle) \<Rightarrow> VariableWithCotisation list \<Rightarrow> error + Cotisation list" where
  "mergedCotisations regleLocalisee variables =
     bindE
       (mapE
          (\<lambda>g. bindE (mapE (variableToCotisation regleLocalisee) g)
                 (\<lambda>cs. Inr (foldl mergeCotisations BLANK_COTISATION cs)))
          (values_of (groupBy dottedName variables)))
       (\<lambda>merged. Inr (filter nonZero merged))"

text \<open>
  \<open>analysisToCotisations\<close> reads \<open>analysis.cache\<close> without a test: an absent analysis is a
  \<open>TypeError\<close>.
\<close>

definition analysisToCotisations ::
  "Analysis option \<Rightarrow> (string \<Rightarrow> error + Regle) \<Rightarrow> error + Cotisations" where
  "analysisToCotisations analysis regleLocalisee =
     (case analysis of
        None \<Rightarrow> Inl TypeError
      | Some a \<Rightarrow>
          bindE (mergedCotisations regleLocalisee (analysis_variables a))
            (\<lambda>cs. Inr (groupByBranche cs)))"

subsection \<open>Rule localisation and amounts\<close>

text \<open>
  \<open>regleLocaliseeSelector\<close>. Both tests of the source are on \<open>localizedFlatRules\<close>, so the
  second one never fires once the first has passed; reading \<open>titre\<close> of a rule that was not
  found is a \<open>TypeError\<close>. \<open>titre || nom\<close> takes the name when the title is absent or
  empty. The link starts with the six characters of the source's prefix.
\<close>

definition lien_prefix :: string where
  "lien_prefix = ''/r'' @ [CHR 0xE8] @ ''gle/''"

definition regleLocaliseeSelector :: "'fr Rules \<Rightarrow> 'fr option \<Rightarrow> string \<Rightarrow> error + Regle" where
  "regleLocaliseeSelector rules localizedFlatRules dn =
     (case localizedFlatRules of
        None \<Rightarrow> Inl MissingRuleCatalog
      | Some fr \<Rightarrow>
          (let localizedRule = findRuleByDottedName rules fr dn
           in if localizedFlatRules = None then Inl (RuleNotFound dn)
              else (case localizedRule of
                      None \<Rightarrow> Inl TypeError
                    | Some lr \<Rightarrow>
                        Inr \<lparr>nom = (case titre lr of
                                        None \<Rightarrow> rule_nom lr
                                      | Some t \<Rightarrow> if t = [] then rule_nom lr else t),
                             lien = lien_prefix @ encodeRuleName rules dn\<rparr>)))"

text \<open>
  \<open>regleAvecMontantSelector\<close>: the cache first, then the first target of that name; the
  rule is localised only after the node has been found; \<open>nodeValue || 0\<close>.
\<close>

definition findRule :: "Analysis \<Rightarrow> string \<Rightarrow> EvaluatedNode option" where
  "findRule a dn =
     (case cache a dn of
        Some n \<Rightarrow> Some n
      | None \<Rightarrow> find (\<lambda>target. node_dottedName target = dn) (targets a))"

definition nodeValue_or_0 :: "EvaluatedNode \<Rightarrow> real" where
  "nodeValue_or_0 n = (case node_nodeValue n of None \<Rightarrow> 0 | Some x \<Rightarrow> if x = 0 then 0 else x)"

definition regleAvecMontantSelector ::
  "Analysis option \<Rightarrow> (string \<Rightarrow> error + Regle) \<Rightarrow> string \<Rightarrow> error + RegleAvecMontant" where
  "regleAvecMontantSelector analysis regleLocalisee dn =
     (case analysis of
        None \<Rightarrow> Inl MissingAnalysis
      | Some a \<Rightarrow>
          (case findRule a dn of
             None \<Rightarrow> Inl (RuleNotFoundInAnalysis dn)
           | Some rule \<Rightarrow>
               (case regleLocalisee dn of
                  Inl e \<Rightarrow> Inl e
                | Inr r \<Rightarrow> Inr \<lparr>nom = nom r, lien = lien r, montant = nodeValue_or_0 rule\<rparr>)))"

subsection \<open>The payslip\<close>

record FicheDePaie =
  salaireBrut :: RegleAvecMontant
  avantagesEnNature :: RegleAvecMontant
  salaireDeBase :: RegleAvecMontant
  reductionsDeCotisations :: RegleAvecMontant
  cotisations :: Cotisations
  totalCotisations :: MontantPartage
  salaireCharge :: RegleAvecMontant
  salaireNet :: RegleAvecMontant
  salaireNetImposable :: RegleAvecMontant
  salaireNetAPayer :: RegleAvecMontant

text \<open>
  \<open>analysisToFicheDePaie\<close>, in the order in which the source evaluates: the contributions,
  the three aggregates, then the fields of the object literal from top to bottom.
\<close>

definition analysisToFicheDePaie ::
  "'fr Rules \<Rightarrow> Analysis option \<Rightarrow> 'fr option \<Rightarrow> error + FicheDePaie" where
  "analysisToFicheDePaie rules analysis flatRules =
     (let regleLocalisee = regleLocaliseeSelector rules flatRules;
          regleAvecMontant = regleAvecMontantSelector analysis regleLocalisee
      in
        bindE (analysisToCotisations analysis regleLocalisee) (\<lambda>cots.
        bindE (regleAvecMontant n_cotisations_salariales) (\<lambda>cotisationsSalariales.
        bindE (regleAvecMontant n_cotisations_patronales) (\<lambda>cotisationsPatronales.
        bindE (regleAvecMontant n_reductions_de_cotisations) (\<lambda>reductions.
        bindE (regleAvecMontant n_salaire_brut_de_base) (\<lambda>base.
        bindE (regleAvecMontant n_avantages_en_nature) (\<lambda>avantages.
        bindE (regleAvecMontant n_salaire_brut) (\<lambda>brut.
        bindE (regleAvecMontant n_salaire_total) (\<lambda>charge.
        bindE (regleAvecMontant n_salaire_net) (\<lambda>net.
        bindE (regleAvecMontant n_salaire_net_imposable) (\<lambda>netImposable.
        bindE (regleAvecMontant n_salaire_net_a_payer) (\<lambda>netAPayer.
          Inr \<lparr>salaireBrut = brut,
               avantagesEnNature = avantages,
               salaireDeBase = base,
               reductionsDeCotisations = reductions,
               cotisations = cots,
               totalCotisations =
                 \<lparr>partSalariale = montant cotisationsSalariales,
                  partPatronale = montant cotisationsPatronales - montant reductions\<rparr>,
               salaireCharge = charge,
               salaireNet = net,
               salaireNetImposable = netImposable,
               salaireNetAPayer = netAPayer\<rparr>))))))))))))"

subsection \<open>A worked example\<close>

text \<open>
  The end-to-end scenario of the specification: gross pay 2000, one contribution to the
  retirement branch, 100 borne by the employee and 300 by the employer, reductions of 20.
  The catalog is a list of named rules; four nodes sit in the cache and six among the
  targets, one of them without a value.
\<close>

definition ex_rules :: "(string \<times> FlatRule) list Rules" where
  "ex_rules = \<lparr>findRuleByDottedName = map_of, encodeRuleName = id\<rparr>"

definition ex_vieillesse :: string where
  "ex_vieillesse = contrat_salarie @ '' . vieillesse''"

definition ex_catalog :: "(string \<times> FlatRule) list" where
  "ex_catalog =
     map (\<lambda>dn. (dn, \<lparr>titre = None, rule_nom = dn\<rparr>))
       [n_cotisations_salariales, n_cotisations_patronales, n_reductions_de_cotisations,
        n_salaire_brut_de_base, n_avantages_en_nature, n_salaire_brut, n_salaire_total,
        n_salaire_net, n_salaire_net_imposable, n_salaire_net_a_payer, ex_vieillesse]"

definition ex_variable :: "DuPar \<Rightarrow> real \<Rightarrow> VariableWithCotisation" where
  "ex_variable who x =
     \<lparr>dottedName = ex_vieillesse, nodeValue = x,
      cotisation = Some \<lparr>duPar = Some who, attr_branche = Some Retraite\<rparr>,
      taxe = None, explanation = None\<rparr>"

definition ex_node ::
  "string \<Rightarrow> real option \<Rightarrow> VariableWithCotisation list option \<Rightarrow> EvaluatedNode" where
  "ex_node dn x vs = \<lparr>node_dottedName = dn, node_nodeValue = x, node_variables = vs\<rparr>"

definition ex_analysis :: Analysis where
  "ex_analysis =
     \<lparr>cache = map_of
        [(n_cotisations_salariales,
            ex_node n_cotisations_salariales (Some 100) (Some [ex_variable Salarie 100])),
         (n_cotisations_patronales,
            ex_node n_cotisations_patronales (Some 300) (Some [ex_variable Employeur 300])),
         (n_reductions_de_cotisations, ex_node n_reductions_de_cotisations (Some 20) None),
         (n_salaire_brut, ex_node n_salaire_brut (Some 2000) None)],
      targets =
        [ex_node n_salaire_brut_de_base (Some 2000) None,
         ex_node n_avantages_en_nature None None,
         ex_node n_salaire_total (Some 2280) None,
         ex_node n_salaire_net (Some 1900) None,
         ex_node n_salaire_net_imposable (Some 1950) None,
         ex_node n_salaire_net_a_payer (Some 1900) None]\<rparr>"

definition ex_regle :: "string \<Rightarrow> real \<Rightarrow> RegleAvecMontant" where
  "ex_regle dn x = \<lparr>nom = dn, lien = lien_prefix @ dn, montant = x\<rparr>"

definition ex_cotisation :: Cotisation where
  "ex_cotisation =
     \<lparr>nom = ex_vieillesse, lien = lien_prefix @ ex_vieillesse, branche = Retraite,
      montantPartage = \<lparr>partSalariale = 100, partPatronale = 300\<rparr>\<rparr>"

definition ex_fiche :: FicheDePaie where
  "ex_fiche =
     \<lparr>salaireBrut = ex_regle n_salaire_brut 2000,
      avantagesEnNature = ex_regle n_avantages_en_nature 0,
      salaireDeBase = ex_regle n_salaire_brut_de_base 2000,
      reductionsDeCotisations = ex_regle n_reductions_de_cotisations 20,
      cotisations =
        [(Sante, None), (AccidentsDuTravail, None), (Retraite, Some [ex_cotisation]),
         (Famille, None), (AssuranceChomage, None), (Logement, None), (Autres, None)],
      totalCotisations = \<lparr>partSalariale = 100, partPatronale = 280\<rparr>,
      salaireCharge = ex_regle n_salaire_total 2280,
      salaireNet = ex_regle n_salaire_net 1900,
      salaireNetImposable = ex_regle n_salaire_net_imposable 1950,
      salaireNetAPayer = ex_regle n_salaire_net_a_payer 1900\<rparr>"

text \<open>An analysis with nothing in it, and a variable that names neither payer nor branch.\<close>

definition empty_analysis :: Analysis where
  "empty_analysis = \<lparr>cache = Map.empty, targets = []\<rparr>"

definition bare_variable :: "string \<Rightarrow> real \<Rightarrow> VariableWithCotisation" where
  "bare_variable dn x =
     \<lparr>dottedName = dn, nodeValue = x, cotisation = None, taxe = None, explanation = None\<rparr>"

text \<open>A variable whose only branch indication is \<open>explanation.taxe.branche = 'logement'\<close>.\<close>

definition logement_variable :: VariableWithCotisation where
  "logement_variable =
     \<lparr>dottedName = ex_vieillesse, nodeValue = 5,
      cotisation = Some \<lparr>duPar = None, attr_branche = None\<rparr>,
      taxe = None,
      explanation =
        Some \<lparr>expl_cotisation = None,
              expl_taxe = Some \<lparr>duPar = None, attr_branche = Some Logement\<rparr>\<rparr>\<rparr>"

section \<open>Auxiliary facts\<close>

subsection \<open>Selectors and merging\<close>

lemma filterBoolean_first_4:
  "filterBoolean_first [a, b, c, d] =
     (case a of Some x \<Rightarrow> Some x | None \<Rightarrow>
        (case b of Some x \<Rightarrow> Some x | None \<Rightarrow>
           (case c of Some x \<Rightarrow> Some x | None \<Rightarrow> d)))"
  by (cases d) (simp_all split: option.splits)

lemma montant_foldl_merge:
  "montantPartage (foldl mergeCotisations a cs) =
     \<lparr>partSalariale = partSalariale (montantPartage a) + sum_list (map (partSalariale \<circ> montantPartage) cs),
      partPatronale = partPatronale (montantPartage a) + sum_list (map (partPatronale \<circ> montantPartage) cs)\<rparr>"
  by (induction cs arbitrary: a) (simp_all add: mergeCotisations_def mergeWith_add_def)

lemma meta_foldl_merge:
  "cs \<noteq> [] \<Longrightarrow>
     nom (foldl mergeCotisations a cs) = nom (last cs) \<and>
     lien (foldl mergeCotisations a cs) = lien (last cs) \<and>
     branche (foldl mergeCotisations a cs) = branche (last cs)"
  by (induction cs arbitrary: a) (auto simp: mergeCotisations_def)

lemma foldl_mergeCotisations_eq:
  assumes "cs \<noteq> []"
  shows "foldl mergeCotisations BLANK_COTISATION cs =
     \<lparr>nom = nom (last cs), lien = lien (last cs), branche = branche (last cs),
      montantPartage =
        \<lparr>partSalariale = sum_list (map (partSalariale \<circ> montantPartage) cs),
         partPatronale = sum_list (map (partPatronale \<circ> montantPartage) cs)\<rparr>\<rparr>"
  by (rule Cotisation.equality)
     (simp_all add: meta_foldl_merge [OF assms] montant_foldl_merge BLANK_COTISATION_def)

subsection \<open>Grouping\<close>

lemma groupBy_add_nonempty: "groupBy_add k x acc \<noteq> []"
  by (cases acc) (auto split: if_splits)

lemma groupBy_add_groups_nonempty:
  "[] \<notin> snd ` set acc \<Longrightarrow> [] \<notin> snd ` set (groupBy_add k x acc)"
proof (induction acc)
  case Nil
  then show ?case by simp
next
  case (Cons p acc)
  obtain k' g where p: "p = (k', g)" by (cases p)
  from Cons.prems p have "g \<noteq> []" and "[] \<notin> snd ` set acc" by auto
  with Cons.IH p show ?case by (cases "k = k'") simp_all
qed

lemma foldl_groupBy_add_nonempty:
  "acc \<noteq> [] \<or> xs \<noteq> [] \<Longrightarrow> [] \<notin> snd ` set acc \<Longrightarrow>
     foldl (\<lambda>acc x. groupBy_add (f x) x acc) acc xs \<noteq> [] \<and>
     [] \<notin> snd ` set (foldl (\<lambda>acc x. groupBy_add (f x) x acc) acc xs)"
proof (induction xs arbitrary: acc)
  case Nil
  then show ?case by simp
next
  case (Cons x xs)
  have "groupBy_add (f x) x acc \<noteq> []" by (rule groupBy_add_nonempty)
  moreover have "[] \<notin> snd ` set (groupBy_add (f x) x acc)"
    using Cons.prems(2) by (rule groupBy_add_groups_nonempty)
  ultimately show ?case using Cons.IH [of "groupBy_add (f x) x acc"] by simp
qed

lemma groupBy_nonempty:
  "xs \<noteq> [] \<Longrightarrow> groupBy f xs \<noteq> [] \<and> [] \<notin> set (values_of (groupBy f xs))"
  unfolding groupBy_def values_of_def using foldl_groupBy_add_nonempty [of "[]" xs f] by simp

lemma foldl_step_lookup:
  "foldl groupByBranche_step m cs b =
     (let l = filter (\<lambda>c. branche c = b) cs in
      if l = [] then m b else Some (rev l @ (case m b of None \<Rightarrow> [] | Some x \<Rightarrow> x)))"
  by (induction cs arbitrary: m) (auto simp: groupByBranche_step_def Let_def)

lemma groupByBranche_eq:
  "groupByBranche cs =
     map (\<lambda>b. (b, if filter (\<lambda>c. branche c = b) cs = [] then None
                    else Some (rev (filter (\<lambda>c. branche c = b) cs))))
       COTISATION_BRANCHE_ORDER"
  by (simp add: groupByBranche_def foldl_step_lookup Let_def)

lemma groupByBranche_branches:
  "map fst (groupByBranche cs) = COTISATION_BRANCHE_ORDER \<and> length (groupByBranche cs) = 7"
  by (simp add: groupByBranche_def Let_def comp_def COTISATION_BRANCHE_ORDER_def)

lemma groupByBranche_bucket_subset:
  "(b, Some bucket) \<in> set (groupByBranche cs) \<Longrightarrow> set bucket \<subseteq> set cs"
  by (auto simp: groupByBranche_eq split: if_splits)

lemma groupByBranche_member:
  "c \<in> set cs \<Longrightarrow>
     \<exists>bucket. (branche c, Some bucket) \<in> set (groupByBranche cs) \<and> c \<in> set bucket"
proof -
  assume c: "c \<in> set cs"
  have "branche c \<in> set COTISATION_BRANCHE_ORDER"
    by (cases "branche c") (simp_all add: COTISATION_BRANCHE_ORDER_def)
  moreover from c have "filter (\<lambda>x. branche x = branche c) cs \<noteq> []"
    by (auto simp: filter_empty_conv)
  ultimately have "(branche c, Some (rev (filter (\<lambda>x. branche x = branche c) cs))) \<in> set (groupByBranche cs)"
    unfolding groupByBranche_eq by (simp add: image_iff)
  moreover from c have "c \<in> set (rev (filter (\<lambda>x. branche x = branche c) cs))" by simp
  ultimately show ?thesis by blast
qed

subsection \<open>Errors and resolution\<close>

lemma mapE_all_fail:
  "xs \<noteq> [] \<Longrightarrow> (\<And>x. f x = Inl e) \<Longrightarrow> mapE f xs = Inl e"
  by (cases xs) auto

lemma bindE_Inr: "bindE m f = Inr y \<Longrightarrow> \<exists>x. m = Inr x \<and> f x = Inr y"
  by (cases m) (simp_all add: bindE_def)

lemma mergedCotisations_nonZero:
  "mergedCotisations loc vs = Inr cs \<Longrightarrow> c \<in> set cs \<Longrightarrow> nonZero c"
  by (auto simp: mergedCotisations_def bindE_def split: sum.splits)

lemma mergedCotisations_no_catalog:
  assumes "variables \<noteq> []"
  shows "mergedCotisations (regleLocaliseeSelector rules None) variables = Inl MissingRuleCatalog"
proof -
  let ?loc = "regleLocaliseeSelector rules None"
  have v: "\<And>v. variableToCotisation ?loc v = Inl MissingRuleCatalog"
    by (simp add: variableToCotisation_def regleLocaliseeSelector_def)
  have g: "\<And>g. g \<noteq> [] \<Longrightarrow> mapE (variableToCotisation ?loc) g = Inl MissingRuleCatalog"
    by (rule mapE_all_fail) (simp_all add: v)
  have ne: "values_of (groupBy dottedName variables) \<noteq> []"
    and nn: "[] \<notin> set (values_of (groupBy dottedName variables))"
    using groupBy_nonempty [OF assms, of dottedName] by (simp_all add: values_of_def)
  from ne obtain g gs where gs: "values_of (groupBy dottedName variables) = g # gs"
    by (cases "values_of (groupBy dottedName variables)") simp_all
  with nn have "g \<noteq> []" by auto
  with gs show ?thesis
    by (simp add: mergedCotisations_def bindE_def g)
qed

lemma analysisToCotisations_Inr:
  "analysisToCotisations analysis loc = Inr cots \<Longrightarrow>
     \<exists>a cs. analysis = Some a \<and> mergedCotisations loc (analysis_variables a) = Inr cs \<and>
            cots = groupByBranche cs"
  by (cases analysis) (auto simp: analysisToCotisations_def dest!: bindE_Inr)

lemma regleLocaliseeSelector_errors:
  "regleLocaliseeSelector rules fr dn \<noteq> Inl (RuleNotFoundInAnalysis dn')"
  by (simp add: regleLocaliseeSelector_def Let_def split: option.splits)

lemma findRule_None:
  "findRule a dn = None \<longleftrightarrow>
     cache a dn = None \<and> (\<forall>t \<in> set (targets a). node_dottedName t \<noteq> dn)"
  by (auto simp: findRule_def find_None_iff split: option.splits)

lemma nodeValue_or_0_eq:
  "nodeValue_or_0 n = (case node_nodeValue n of None \<Rightarrow> 0 | Some x \<Rightarrow> x)"
  by (simp add: nodeValue_or_0_def split: option.splits)

lemma analysisToFicheDePaie_no_catalog:
  "analysisToFicheDePaie rules (Some a) None =
     (if analysis_variables a = [] \<and> findRule a n_cotisations_salariales = None
      then Inl (RuleNotFoundInAnalysis n_cotisations_salariales)
      else Inl MissingRuleCatalog)"
proof (cases "analysis_variables a = []")
  case True
  have m: "mergedCotisations (regleLocaliseeSelector rules None) [] = Inr []"
    by (simp add: mergedCotisations_def groupBy_def values_of_def bindE_def)
  have r: "regleAvecMontantSelector (Some a) (regleLocaliseeSelector rules None)
        n_cotisations_salariales =
      (if findRule a n_cotisations_salariales = None
       then Inl (RuleNotFoundInAnalysis n_cotisations_salariales)
       else Inl MissingRuleCatalog)"
    by (simp add: regleAvecMontantSelector_def regleLocaliseeSelector_def split: option.splits)
  show ?thesis
    by (simp add: analysisToFicheDePaie_def Let_def analysisToCotisations_def True m r bindE_def)
next
  case False
  then show ?thesis
    by (simp add: analysisToFicheDePaie_def Let_def analysisToCotisations_def
        mergedCotisations_no_catalog bindE_def)
qed

subsection \<open>The worked example, evaluated\<close>

lemmas name_defs = n_cotisations_salariales_def n_cotisations_patronales_def
  n_reductions_de_cotisations_def n_salaire_brut_de_base_def n_avantages_en_nature_def
  n_salaire_brut_def n_salaire_total_def n_salaire_net_def n_salaire_net_imposable_def
  n_salaire_net_a_payer_def ex_vieillesse_def contrat_salarie_def

lemma ex_variables: "analysis_variables ex_analysis = [ex_variable Salarie 100, ex_variable Employeur 300]"
  by (simp add: analysis_variables_def ex_analysis_def pathOr_variables_def ex_node_def name_defs)

lemma ex_localise:
  "dn \<in> set (map fst ex_catalog) \<Longrightarrow>
     regleLocaliseeSelector ex_rules (Some ex_catalog) dn = Inr \<lparr>nom = dn, lien = lien_prefix @ dn\<rparr>"
  unfolding regleLocaliseeSelector_def ex_rules_def ex_catalog_def
  by (auto simp: Let_def)

lemma ex_localise_names:
  "regleLocaliseeSelector ex_rules (Some ex_catalog) n_cotisations_salariales = Inr \<lparr>nom = n_cotisations_salariales, lien = lien_prefix @ n_cotisations_salariales\<rparr>"
  "regleLocaliseeSelector ex_rules (Some ex_catalog) n_cotisations_patronales = Inr \<lparr>nom = n_cotisations_patronales, lien = lien_prefix @ n_cotisations_patronales\<rparr>"
  "regleLocaliseeSelector ex_rules (Some ex_catalog) n_reductions_de_cotisations = Inr \<lparr>nom = n_reductions_de_cotisations, lien = lien_prefix @ n_reductions_de_cotisations\<rparr>"
  "regleLocaliseeSelector ex_rules (Some ex_catalog) n_salaire_brut_de_base = Inr \<lparr>nom = n_salaire_brut_de_base, lien = lien_prefix @ n_salaire_brut_de_base\<rparr>"
  "regleLocaliseeSelector ex_rules (Some ex_catalog) n_avantages_en_nature = Inr \<lparr>nom = n_avantages_en_nature, lien = lien_prefix @ n_avantages_en_nature\<rparr>"
  "regleLocaliseeSelector ex_rules (Some ex_catalog) n_salaire_brut = Inr \<lparr>nom = n_salaire_brut, lien = lien_prefix @ n_salaire_brut\<rparr>"
  "regleLocaliseeSelector ex_rules (Some ex_catalog) n_salaire_total = Inr \<lparr>nom = n_salaire_total, lien = lien_prefix @ n_salaire_total\<rparr>"
  "regleLocaliseeSelector ex_rules (Some ex_catalog) n_salaire_net = Inr \<lparr>nom = n_salaire_net, lien = lien_prefix @ n_salaire_net\<rparr>"
  "regleLocaliseeSelector ex_rules (Some ex_catalog) n_salaire_net_imposable = Inr \<lparr>nom = n_salaire_net_imposable, lien = lien_prefix @ n_salaire_net_imposable\<rparr>"
  "regleLocaliseeSelector ex_rules (Some ex_catalog) n_salaire_net_a_payer = Inr \<lparr>nom = n_salaire_net_a_payer, lien = lien_prefix @ n_salaire_net_a_payer\<rparr>"
  "regleLocaliseeSelector ex_rules (Some ex_catalog) ex_vieillesse = Inr \<lparr>nom = ex_vieillesse, lien = lien_prefix @ ex_vieillesse\<rparr>"
  by (rule ex_localise, simp add: ex_catalog_def)+

lemma ex_findRule:
  "findRule ex_analysis n_cotisations_salariales = Some (ex_node n_cotisations_salariales (Some 100) (Some [ex_variable Salarie 100]))"
  "findRule ex_analysis n_cotisations_patronales = Some (ex_node n_cotisations_patronales (Some 300) (Some [ex_variable Employeur 300]))"
  "findRule ex_analysis n_reductions_de_cotisations = Some (ex_node n_reductions_de_cotisations (Some 20) None)"
  "findRule ex_analysis n_salaire_brut = Some (ex_node n_salaire_brut (Some 2000) None)"
  "findRule ex_analysis n_salaire_brut_de_base = Some (ex_node n_salaire_brut_de_base (Some 2000) None)"
  "findRule ex_analysis n_avantages_en_nature = Some (ex_node n_avantages_en_nature None None)"
  "findRule ex_analysis n_salaire_total = Some (ex_node n_salaire_total (Some 2280) None)"
  "findRule ex_analysis n_salaire_net = Some (ex_node n_salaire_net (Some 1900) None)"
  "findRule ex_analysis n_salaire_net_imposable = Some (ex_node n_salaire_net_imposable (Some 1950) None)"
  "findRule ex_analysis n_salaire_net_a_payer = Some (ex_node n_salaire_net_a_payer (Some 1900) None)"
  by (simp_all add: findRule_def ex_analysis_def ex_node_def name_defs)

lemma ex_resolve:
  "regleAvecMontantSelector (Some ex_analysis) (regleLocaliseeSelector ex_rules (Some ex_catalog)) n_cotisations_salariales = Inr (ex_regle n_cotisations_salariales 100)"
  "regleAvecMontantSelector (Some ex_analysis) (regleLocaliseeSelector ex_rules (Some ex_catalog)) n_cotisations_patronales = Inr (ex_regle n_cotisations_patronales 300)"
  "regleAvecMontantSelector (Some ex_analysis) (regleLocaliseeSelector ex_rules (Some ex_catalog)) n_reductions_de_cotisations = Inr (ex_regle n_reductions_de_cotisations 20)"
  "regleAvecMontantSelector (Some ex_analysis) (regleLocaliseeSelector ex_rules (Some ex_catalog)) n_salaire_brut = Inr (ex_regle n_salaire_brut 2000)"
  "regleAvecMontantSelector (Some ex_analysis) (regleLocaliseeSelector ex_rules (Some ex_catalog)) n_salaire_brut_de_base = Inr (ex_regle n_salaire_brut_de_base 2000)"
  "regleAvecMontantSelector (Some ex_analysis) (regleLocaliseeSelector ex_rules (Some ex_catalog)) n_avantages_en_nature = Inr (ex_regle n_avantages_en_nature 0)"
  "regleAvecMontantSelector (Some ex_analysis) (regleLocaliseeSelector ex_rules (Some ex_catalog)) n_salaire_total = Inr (ex_regle n_salaire_total 2280)"
  "regleAvecMontantSelector (Some ex_analysis) (regleLocaliseeSelector ex_rules (Some ex_catalog)) n_salaire_net = Inr (ex_regle n_salaire_net 1900)"
  "regleAvecMontantSelector (Some ex_analysis) (regleLocaliseeSelector ex_rules (Some ex_catalog)) n_salaire_net_imposable = Inr (ex_regle n_salaire_net_imposable 1950)"
  "regleAvecMontantSelector (Some ex_analysis) (regleLocaliseeSelector ex_rules (Some ex_catalog)) n_salaire_net_a_payer = Inr (ex_regle n_salaire_net_a_payer 1900)"
  by (simp_all add: regleAvecMontantSelector_def ex_findRule ex_localise_names ex_regle_def
      nodeValue_or_0_def ex_node_def)

lemma ex_merged:
  "mergedCotisations (regleLocaliseeSelector ex_rules (Some ex_catalog))
     [ex_variable Salarie 100, ex_variable Employeur 300] = Inr [ex_cotisation]"
proof -
  have g: "values_of (groupBy dottedName [ex_variable Salarie 100, ex_variable Employeur 300])
      = [[ex_variable Salarie 100, ex_variable Employeur 300]]"
    by (simp add: groupBy_def values_of_def ex_variable_def)
  have v: "variableToCotisation (regleLocaliseeSelector ex_rules (Some ex_catalog)) (ex_variable who x)
      = Inr \<lparr>nom = ex_vieillesse, lien = lien_prefix @ ex_vieillesse, branche = Retraite,
            montantPartage = (if who = Salarie then \<lparr>partSalariale = x, partPatronale = 0\<rparr>
               else \<lparr>partSalariale = 0, partPatronale = x\<rparr>)\<rparr>" for who x
    by (simp add: variableToCotisation_def ex_variable_def ex_localise_names brancheSelector_def
        branche_paths_def duParSelector_def duPar_paths_def mergeWith_add_key_def BLANK_COTISATION_def)
  show ?thesis
    unfolding mergedCotisations_def g
    by (simp add: v bindE_def mergeCotisations_def mergeWith_add_def BLANK_COTISATION_def
        nonZero_def ex_cotisation_def)
qed

lemma ex_groupByBranche:
  "groupByBranche [ex_cotisation] =
     [(Sante, None), (AccidentsDuTravail, None), (Retraite, Some [ex_cotisation]),
      (Famille, None), (AssuranceChomage, None), (Logement, None), (Autres, None)]"
  by (simp add: groupByBranche_def groupByBranche_step_def COTISATION_BRANCHE_ORDER_def
      ex_cotisation_def)

lemma ex_eval:
  "analysisToFicheDePaie ex_rules (Some ex_analysis) (Some ex_catalog) = Inr ex_fiche"
  by (simp add: analysisToFicheDePaie_def analysisToCotisations_def ex_variables ex_merged
      ex_groupByBranche ex_resolve bindE_def ex_fiche_def ex_regle_def)

section \<open>The properties of the specification\<close>

text \<open>
  Claim C1. Whenever the assembly of the payslip succeeds, the three aggregates have been
  resolved, the employer share of \<open>totalCotisations\<close> is the amount of the employer
  aggregate minus the amount of the reductions, and the employee share is the amount of the
  employee aggregate.
\<close>

theorem C1_total:
  assumes "analysisToFicheDePaie rules analysis flatRules = Inr p"
  shows "\<exists>sal pat red.
           regleAvecMontantSelector analysis (regleLocaliseeSelector rules flatRules)
             n_cotisations_salariales = Inr sal \<and>
           regleAvecMontantSelector analysis (regleLocaliseeSelector rules flatRules)
             n_cotisations_patronales = Inr pat \<and>
           regleAvecMontantSelector analysis (regleLocaliseeSelector rules flatRules)
             n_reductions_de_cotisations = Inr red \<and>
           reductionsDeCotisations p = red \<and>
           partPatronale (totalCotisations p) = montant pat - montant red \<and>
           partSalariale (totalCotisations p) = montant sal"
  using assms unfolding analysisToFicheDePaie_def Let_def
  by (auto dest!: bindE_Inr)

theorem C1_total_witness:
  "analysisToFicheDePaie ex_rules (Some ex_analysis) (Some ex_catalog) = Inr ex_fiche
   \<and> partPatronale (totalCotisations ex_fiche) = 300 - 20
   \<and> partSalariale (totalCotisations ex_fiche) = 100"
proof -
  from C1_total [OF ex_eval] obtain sal pat red where
    "regleAvecMontantSelector (Some ex_analysis) (regleLocaliseeSelector ex_rules (Some ex_catalog))
       n_cotisations_salariales = Inr sal"
    "regleAvecMontantSelector (Some ex_analysis) (regleLocaliseeSelector ex_rules (Some ex_catalog))
       n_cotisations_patronales = Inr pat"
    "regleAvecMontantSelector (Some ex_analysis) (regleLocaliseeSelector ex_rules (Some ex_catalog))
       n_reductions_de_cotisations = Inr red"
    and t: "partPatronale (totalCotisations ex_fiche) = montant pat - montant red"
      "partSalariale (totalCotisations ex_fiche) = montant sal"
    by blast
  then have "sal = ex_regle n_cotisations_salariales 100"
    "pat = ex_regle n_cotisations_patronales 300"
    "red = ex_regle n_reductions_de_cotisations 20"
    by (simp_all add: ex_resolve)
  with t ex_eval show ?thesis by (simp add: ex_regle_def)
qed

text \<open>
  Claim C2. The grouped contributions always have the seven branches, in the declared
  order (\<open>groupByBranche_branches\<close>). A branch that received no contribution is however
  paired with \<open>undefined\<close>, not with an empty list, although the declared type
  \<open>Cotisations\<close> promises a list and the reducer itself writes \<open>acc[branche] || []\<close>:
  on an analysis without contribution variables all seven buckets are \<open>None\<close>.
\<close>

theorem C2_empty_buckets:
  "analysisToCotisations (Some empty_analysis) (regleLocaliseeSelector ex_rules (Some ex_catalog)) =
     Inr [(Sante, None), (AccidentsDuTravail, None), (Retraite, None), (Famille, None),
          (AssuranceChomage, None), (Logement, None), (Autres, None)]"
  by (simp add: analysisToCotisations_def analysis_variables_def empty_analysis_def
      pathOr_variables_def mergedCotisations_def groupBy_def values_of_def bindE_def
      groupByBranche_def COTISATION_BRANCHE_ORDER_def)

text \<open>
  Claim C3. Folding \<open>mergeCotisations\<close> from the blank contribution over a non-empty
  group gives the sum of the employee shares, the sum of the employer shares, and the
  name, link and branch of the last element. In particular two variables of the same
  dotted name, the first worth 10 for the employee and the second worth 7 for the
  employer, are merged into a single contribution with shares 10 and 7.
\<close>

theorem C3_merge:
  "(cs \<noteq> [] \<longrightarrow>
      foldl mergeCotisations BLANK_COTISATION cs =
        \<lparr>nom = nom (last cs), lien = lien (last cs), branche = branche (last cs),
         montantPartage =
           \<lparr>partSalariale = sum_list (map (partSalariale \<circ> montantPartage) cs),
            partPatronale = sum_list (map (partPatronale \<circ> montantPartage) cs)\<rparr>\<rparr>)
   \<and> (\<forall>r. dottedName v1 = dottedName v2 \<and>
          duParSelector v1 = Some Salarie \<and> nodeValue v1 = 10 \<and>
          duParSelector v2 \<noteq> Some Salarie \<and> nodeValue v2 = 7 \<and>
          loc (dottedName v2) = Inr r \<longrightarrow>
          mergedCotisations loc [v1, v2] =
            Inr [\<lparr>nom = nom r, lien = lien r, branche = brancheSelector v2,
                  montantPartage = \<lparr>partSalariale = 10, partPatronale = 7\<rparr>\<rparr>])"
proof -
  have two: "mergedCotisations loc [v1, v2] =
            Inr [\<lparr>nom = nom r, lien = lien r, branche = brancheSelector v2,
                  montantPartage = \<lparr>partSalariale = 10, partPatronale = 7\<rparr>\<rparr>]"
    if dn: "dottedName v1 = dottedName v2"
      and v1: "duParSelector v1 = Some Salarie" "nodeValue v1 = 10"
      and v2: "duParSelector v2 \<noteq> Some Salarie" "nodeValue v2 = 7"
      and r: "loc (dottedName v2) = Inr r" for r
  proof -
    have g: "values_of (groupBy dottedName [v1, v2]) = [[v1, v2]]"
      by (simp add: groupBy_def values_of_def dn)
    have n1: "variableToCotisation loc v1 =
        Inr \<lparr>nom = nom r, lien = lien r, branche = brancheSelector v1,
             montantPartage = \<lparr>partSalariale = 10, partPatronale = 0\<rparr>\<rparr>"
      using r v1 by (simp add: variableToCotisation_def dn mergeWith_add_key_def BLANK_COTISATION_def)
    have n2: "variableToCotisation loc v2 =
        Inr \<lparr>nom = nom r, lien = lien r, branche = brancheSelector v2,
             montantPartage = \<lparr>partSalariale = 0, partPatronale = 7\<rparr>\<rparr>"
      using r v2 by (simp add: variableToCotisation_def mergeWith_add_key_def BLANK_COTISATION_def)
    show ?thesis
      unfolding mergedCotisations_def g
      by (simp add: n1 n2 bindE_def mergeCotisations_def mergeWith_add_def BLANK_COTISATION_def
          nonZero_def)
  qed
  show ?thesis
    using foldl_mergeCotisations_eq [of cs] two by blast
qed

theorem C3_merge_witness:
  "foldl mergeCotisations BLANK_COTISATION [ex_cotisation, ex_cotisation\<lparr>branche := Famille\<rparr>] =
     \<lparr>nom = ex_vieillesse, lien = lien_prefix @ ex_vieillesse, branche = Famille,
      montantPartage = \<lparr>partSalariale = 200, partPatronale = 600\<rparr>\<rparr>
   \<and> mergedCotisations (regleLocaliseeSelector ex_rules (Some ex_catalog))
        [ex_variable Salarie 10, ex_variable Employeur 7] =
      Inr [\<lparr>nom = ex_vieillesse, lien = lien_prefix @ ex_vieillesse, branche = Retraite,
            montantPartage = \<lparr>partSalariale = 10, partPatronale = 7\<rparr>\<rparr>]"
  using C3_merge [of "[ex_cotisation, ex_cotisation\<lparr>branche := Famille\<rparr>]"
      "ex_variable Salarie 10" "ex_variable Employeur 7"
      "regleLocaliseeSelector ex_rules (Some ex_catalog)"]
  by (simp add: ex_cotisation_def ex_variable_def ex_localise_names duParSelector_def duPar_paths_def
      brancheSelector_def branche_paths_def)

text \<open>
  Claim C4. Every contribution found in a bucket of an assembled payslip has a non-zero
  employee share or a non-zero employer share.
\<close>

theorem C4_zero:
  assumes "analysisToFicheDePaie rules analysis flatRules = Inr p"
    and "(b, Some bucket) \<in> set (cotisations p)" and "c \<in> set bucket"
  shows "partSalariale (montantPartage c) \<noteq> 0 \<or> partPatronale (montantPartage c) \<noteq> 0"
proof -
  let ?loc = "regleLocaliseeSelector rules flatRules"
  from assms(1) obtain cots where cots: "analysisToCotisations analysis ?loc = Inr cots"
    and p: "cotisations p = cots"
    unfolding analysisToFicheDePaie_def Let_def by (auto dest!: bindE_Inr)
  from cots obtain a cs where cs: "mergedCotisations ?loc (analysis_variables a) = Inr cs"
    and g: "cots = groupByBranche cs"
    by (blast dest: analysisToCotisations_Inr)
  from assms(2) p g have "set bucket \<subseteq> set cs"
    by (auto dest: groupByBranche_bucket_subset)
  with assms(3) have "c \<in> set cs" by auto
  with cs have "nonZero c" by (rule mergedCotisations_nonZero)
  then show ?thesis by (auto simp: nonZero_def)
qed

theorem C4_zero_witness:
  "analysisToFicheDePaie ex_rules (Some ex_analysis) (Some ex_catalog) = Inr ex_fiche
   \<and> (Retraite, Some [ex_cotisation]) \<in> set (cotisations ex_fiche)
   \<and> \<not> (partSalariale (montantPartage ex_cotisation) = 0 \<and>
         partPatronale (montantPartage ex_cotisation) = 0)"
proof -
  have b: "(Retraite, Some [ex_cotisation]) \<in> set (cotisations ex_fiche)"
    by (simp add: ex_fiche_def)
  have "ex_cotisation \<in> set [ex_cotisation]" by simp
  with C4_zero [OF ex_eval b] ex_eval b show ?thesis by blast
qed

text \<open>
  Claim C5. With a catalog that is present but does not know the dotted name, the
  localisation does not raise the error that the source prepares for a rule that is not
  found: the second test looks at the catalog again instead of the rule, and the failure
  is the \<open>TypeError\<close> of reading \<open>titre\<close> on \<open>undefined\<close>. No rule is returned.
\<close>

theorem C5_unknown_rule:
  "regleLocaliseeSelector ex_rules (Some ex_catalog) ''inconnue'' = Inl TypeError"
  by (simp add: regleLocaliseeSelector_def ex_rules_def ex_catalog_def name_defs)

text \<open>
  Claim C6. The payer is the first defined value among \<open>cotisation\<close>, \<open>taxe\<close>,
  \<open>explanation.cotisation\<close> and \<open>explanation.taxe\<close>, in that order. When the rule is
  localised, the whole \<open>nodeValue\<close> goes to the employee share exactly when the payer is
  the employee, and to the employer share otherwise (also when no payer is defined); the
  other share is 0.
\<close>

theorem C6_payer:
  "duParSelector v =
     (case Option.bind (cotisation v) duPar of Some p \<Rightarrow> Some p | None \<Rightarrow>
      (case Option.bind (taxe v) duPar of Some p \<Rightarrow> Some p | None \<Rightarrow>
       (case Option.bind (Option.bind (explanation v) expl_cotisation) duPar of Some p \<Rightarrow> Some p | None \<Rightarrow>
          Option.bind (Option.bind (explanation v) expl_taxe) duPar)))
   \<and> (\<forall>r. loc (dottedName v) = Inr r \<longrightarrow>
          variableToCotisation loc v =
            Inr \<lparr>nom = nom r, lien = lien r, branche = brancheSelector v,
                 montantPartage =
                   (if duParSelector v = Some Salarie
                    then \<lparr>partSalariale = nodeValue v, partPatronale = 0\<rparr>
                    else \<lparr>partSalariale = 0, partPatronale = nodeValue v\<rparr>)\<rparr>)"
proof -
  have "duParSelector v =
     (case Option.bind (cotisation v) duPar of Some p \<Rightarrow> Some p | None \<Rightarrow>
      (case Option.bind (taxe v) duPar of Some p \<Rightarrow> Some p | None \<Rightarrow>
       (case Option.bind (Option.bind (explanation v) expl_cotisation) duPar of Some p \<Rightarrow> Some p | None \<Rightarrow>
          Option.bind (Option.bind (explanation v) expl_taxe) duPar)))"
    unfolding duParSelector_def duPar_paths_def filterBoolean_first_4 by (rule refl)
  moreover have "variableToCotisation loc v =
            Inr \<lparr>nom = nom r, lien = lien r, branche = brancheSelector v,
                 montantPartage =
                   (if duParSelector v = Some Salarie
                    then \<lparr>partSalariale = nodeValue v, partPatronale = 0\<rparr>
                    else \<lparr>partSalariale = 0, partPatronale = nodeValue v\<rparr>)\<rparr>"
    if "loc (dottedName v) = Inr r" for r
    using that by (simp add: variableToCotisation_def mergeWith_add_key_def BLANK_COTISATION_def)
  ultimately show ?thesis by blast
qed

theorem C6_payer_witness:
  "duParSelector (ex_variable Salarie 100) = Some Salarie
   \<and> variableToCotisation (regleLocaliseeSelector ex_rules (Some ex_catalog)) (ex_variable Salarie 100) =
       Inr \<lparr>nom = ex_vieillesse, lien = lien_prefix @ ex_vieillesse, branche = Retraite,
            montantPartage = \<lparr>partSalariale = 100, partPatronale = 0\<rparr>\<rparr>
   \<and> duParSelector (bare_variable ex_vieillesse 5) = None
   \<and> variableToCotisation (regleLocaliseeSelector ex_rules (Some ex_catalog)) (bare_variable ex_vieillesse 5) =
       Inr \<lparr>nom = ex_vieillesse, lien = lien_prefix @ ex_vieillesse, branche = Autres,
            montantPartage = \<lparr>partSalariale = 0, partPatronale = 5\<rparr>\<rparr>"
  using C6_payer [of "ex_variable Salarie 100" "regleLocaliseeSelector ex_rules (Some ex_catalog)"]
    C6_payer [of "bare_variable ex_vieillesse 5" "regleLocaliseeSelector ex_rules (Some ex_catalog)"]
  by (simp add: ex_variable_def bare_variable_def ex_localise_names brancheSelector_def
      branche_paths_def)

text \<open>
  Claim C7. The branch is the first defined value among the four \<open>branche\<close> paths, in the
  same order, and \<open>autres\<close> when none is defined. A variable with only
  \<open>explanation.taxe.branche = 'logement'\<close> gets the branch \<open>logement\<close>, one without any
  branch gets \<open>autres\<close>; the contribution built from a variable carries that branch and
  is put in the bucket of that branch by \<open>groupByBranche\<close>.
\<close>

theorem C7_branch:
  "brancheSelector v =
     (case Option.bind (cotisation v) attr_branche of Some b \<Rightarrow> b | None \<Rightarrow>
      (case Option.bind (taxe v) attr_branche of Some b \<Rightarrow> b | None \<Rightarrow>
       (case Option.bind (Option.bind (explanation v) expl_cotisation) attr_branche of Some b \<Rightarrow> b | None \<Rightarrow>
        (case Option.bind (Option.bind (explanation v) expl_taxe) attr_branche of Some b \<Rightarrow> b | None \<Rightarrow>
           Autres))))
   \<and> (Option.bind (cotisation v) attr_branche = None \<and>
        Option.bind (taxe v) attr_branche = None \<and>
        Option.bind (Option.bind (explanation v) expl_cotisation) attr_branche = None \<and>
        Option.bind (Option.bind (explanation v) expl_taxe) attr_branche = Some Logement
        \<longrightarrow> brancheSelector v = Logement)
   \<and> (Option.bind (cotisation v) attr_branche = None \<and>
        Option.bind (taxe v) attr_branche = None \<and>
        Option.bind (Option.bind (explanation v) expl_cotisation) attr_branche = None \<and>
        Option.bind (Option.bind (explanation v) expl_taxe) attr_branche = None
        \<longrightarrow> brancheSelector v = Autres)
   \<and> (\<forall>r. loc (dottedName v) = Inr r \<longrightarrow>
         (\<exists>c. variableToCotisation loc v = Inr c \<and> branche c = brancheSelector v \<and>
              (\<forall>cs. c \<in> set cs \<longrightarrow>
                 (\<exists>bucket. (brancheSelector v, Some bucket) \<in> set (groupByBranche cs) \<and>
                            c \<in> set bucket))))"
proof -
  have sel: "brancheSelector v =
     (case Option.bind (cotisation v) attr_branche of Some b \<Rightarrow> b | None \<Rightarrow>
      (case Option.bind (taxe v) attr_branche of Some b \<Rightarrow> b | None \<Rightarrow>
       (case Option.bind (Option.bind (explanation v) expl_cotisation) attr_branche of Some b \<Rightarrow> b | None \<Rightarrow>
        (case Option.bind (Option.bind (explanation v) expl_taxe) attr_branche of Some b \<Rightarrow> b | None \<Rightarrow>
           Autres))))"
    unfolding brancheSelector_def branche_paths_def filterBoolean_first_4
    by (simp split: option.splits)
  have grp: "\<exists>c. variableToCotisation loc v = Inr c \<and> branche c = brancheSelector v \<and>
              (\<forall>cs. c \<in> set cs \<longrightarrow>
                 (\<exists>bucket. (brancheSelector v, Some bucket) \<in> set (groupByBranche cs) \<and>
                            c \<in> set bucket))" if r: "loc (dottedName v) = Inr r" for r
  proof -
    obtain c where c: "variableToCotisation loc v = Inr c" and b: "branche c = brancheSelector v"
      using r by (simp add: variableToCotisation_def)
    have "\<exists>bucket. (brancheSelector v, Some bucket) \<in> set (groupByBranche cs) \<and> c \<in> set bucket"
      if "c \<in> set cs" for cs
      using groupByBranche_member [OF that] b by simp
    with c b show ?thesis by blast
  qed
  show ?thesis
    using sel grp by simp
qed

theorem C7_branch_witness:
  "brancheSelector logement_variable = Logement
   \<and> brancheSelector (bare_variable ex_vieillesse 5) = Autres
   \<and> (Logement,
       Some [\<lparr>nom = ex_vieillesse, lien = lien_prefix @ ex_vieillesse, branche = Logement,
              montantPartage = \<lparr>partSalariale = 0, partPatronale = 5\<rparr>\<rparr>])
      \<in> set (groupByBranche
           [\<lparr>nom = ex_vieillesse, lien = lien_prefix @ ex_vieillesse, branche = Logement,
              montantPartage = \<lparr>partSalariale = 0, partPatronale = 5\<rparr>\<rparr>])"
proof -
  let ?loc = "regleLocaliseeSelector ex_rules (Some ex_catalog)"
  let ?c = "\<lparr>nom = ex_vieillesse, lien = lien_prefix @ ex_vieillesse, branche = Logement,
              montantPartage = \<lparr>partSalariale = 0, partPatronale = 5\<rparr>\<rparr>"
  note th = C7_branch [of logement_variable ?loc]
  have paths: "Option.bind (cotisation logement_variable) attr_branche = None"
    "Option.bind (taxe logement_variable) attr_branche = None"
    "Option.bind (Option.bind (explanation logement_variable) expl_cotisation) attr_branche = None"
    "Option.bind (Option.bind (explanation logement_variable) expl_taxe) attr_branche = Some Logement"
    by (simp_all add: logement_variable_def)
  from th paths have l: "brancheSelector logement_variable = Logement" by blast
  have loc: "?loc (dottedName logement_variable) = Inr \<lparr>nom = ex_vieillesse, lien = lien_prefix @ ex_vieillesse\<rparr>"
    by (simp add: logement_variable_def ex_localise_names)
  have c: "variableToCotisation ?loc logement_variable = Inr ?c"
    using loc l
    by (simp add: variableToCotisation_def duParSelector_def duPar_paths_def
        mergeWith_add_key_def BLANK_COTISATION_def logement_variable_def)
  from th loc obtain c' where c': "variableToCotisation ?loc logement_variable = Inr c'"
    and g: "\<forall>cs. c' \<in> set cs \<longrightarrow>
       (\<exists>bucket. (brancheSelector logement_variable, Some bucket) \<in> set (groupByBranche cs) \<and>
                  c' \<in> set bucket)"
    by blast
  from c c' have "c' = ?c" by simp
  with g l have "\<exists>bucket. (Logement, Some bucket) \<in> set (groupByBranche [?c]) \<and> ?c \<in> set bucket"
    by simp
  moreover have "groupByBranche [?c] =
     [(Sante, None), (AccidentsDuTravail, None), (Retraite, None), (Famille, None),
      (AssuranceChomage, None), (Logement, Some [?c]), (Autres, None)]"
    by (simp add: groupByBranche_def groupByBranche_step_def COTISATION_BRANCHE_ORDER_def)
  ultimately have "(Logement, Some [?c]) \<in> set (groupByBranche [?c])" by simp
  moreover from C7_branch [of "bare_variable ex_vieillesse 5" ?loc]
  have "brancheSelector (bare_variable ex_vieillesse 5) = Autres"
    by (simp add: bare_variable_def)
  ultimately show ?thesis using l by simp
qed

text \<open>
  Claim C8. Without a catalog no payslip is ever produced, but the error is not always
  the missing catalog and it is not raised before the analysis is read: the test sits in
  the localiser, which is first called for the first contribution variable or, when there
  is none, after the employee aggregate has been found in the analysis. With a present
  analysis the error is the missing catalog unless the analysis has no contribution
  variable and lacks the employee aggregate; then the aggregate is reported as not found.
\<close>

theorem C8_lazy_catalog_check:
  "(\<forall>p. analysisToFicheDePaie rules analysis None \<noteq> Inr p)
   \<and> analysisToFicheDePaie rules (Some a) None =
       (if analysis_variables a = [] \<and> findRule a n_cotisations_salariales = None
        then Inl (RuleNotFoundInAnalysis n_cotisations_salariales)
        else Inl MissingRuleCatalog)"
proof -
  have "analysisToFicheDePaie rules analysis None \<noteq> Inr p" for p
  proof (cases analysis)
    case None
    then show ?thesis
      by (simp add: analysisToFicheDePaie_def Let_def analysisToCotisations_def bindE_def)
  next
    case (Some a)
    then show ?thesis by (simp add: analysisToFicheDePaie_no_catalog)
  qed
  then show ?thesis by (simp add: analysisToFicheDePaie_no_catalog)
qed

theorem C8_lazy_catalog_check_witness:
  "analysisToFicheDePaie ex_rules (Some ex_analysis) None = Inl MissingRuleCatalog"
  using C8_lazy_catalog_check [of ex_rules "Some ex_analysis" ex_analysis]
  by (simp add: ex_variables)

theorem C8_counterexample:
  "analysisToFicheDePaie ex_rules (Some empty_analysis) None =
     Inl (RuleNotFoundInAnalysis n_cotisations_salariales)
   \<and> analysisToFicheDePaie ex_rules (Some empty_analysis) None \<noteq> Inl MissingRuleCatalog"
  by (simp add: analysisToFicheDePaie_no_catalog analysis_variables_def empty_analysis_def
      pathOr_variables_def findRule_def)

text \<open>
  Claim C9. For a present analysis, the amount of a dotted name is taken from the cache
  when the cache has the name, and otherwise from the first target of that name; the
  error \<open>RuleNotFoundInAnalysis\<close> is raised exactly when neither has it. A node found
  without value, or with value 0, gives the amount 0: the result then only fails when the
  localisation of the rule itself fails, with that failure.
\<close>

theorem C9_amount:
  "(regleAvecMontantSelector (Some a) (regleLocaliseeSelector rules fr) dn =
      Inl (RuleNotFoundInAnalysis dn)
    \<longleftrightarrow> cache a dn = None \<and> (\<forall>t \<in> set (targets a). node_dottedName t \<noteq> dn))
   \<and> (\<forall>n. cache a dn = Some n \<longrightarrow>
         regleAvecMontantSelector (Some a) (regleLocaliseeSelector rules fr) dn =
           (case regleLocaliseeSelector rules fr dn of
              Inl e \<Rightarrow> Inl e
            | Inr r \<Rightarrow>
                Inr \<lparr>nom = nom r, lien = lien r,
                     montant = (case node_nodeValue n of None \<Rightarrow> 0 | Some x \<Rightarrow> x)\<rparr>))
   \<and> (\<forall>t. cache a dn = None \<and>
          find (\<lambda>target. node_dottedName target = dn) (targets a) = Some t \<longrightarrow>
         regleAvecMontantSelector (Some a) (regleLocaliseeSelector rules fr) dn =
           (case regleLocaliseeSelector rules fr dn of
              Inl e \<Rightarrow> Inl e
            | Inr r \<Rightarrow>
                Inr \<lparr>nom = nom r, lien = lien r,
                     montant = (case node_nodeValue t of None \<Rightarrow> 0 | Some x \<Rightarrow> x)\<rparr>))
   \<and> (\<forall>n. findRule a dn = Some n \<and> (node_nodeValue n = None \<or> node_nodeValue n = Some 0) \<longrightarrow>
         (\<forall>r. regleLocaliseeSelector rules fr dn = Inr r \<longrightarrow>
            regleAvecMontantSelector (Some a) (regleLocaliseeSelector rules fr) dn =
              Inr \<lparr>nom = nom r, lien = lien r, montant = 0\<rparr>) \<and>
         (\<forall>e. regleAvecMontantSelector (Some a) (regleLocaliseeSelector rules fr) dn = Inl e \<longrightarrow>
            regleLocaliseeSelector rules fr dn = Inl e))"
proof -
  let ?loc = "regleLocaliseeSelector rules fr"
  let ?R = "regleAvecMontantSelector (Some a) ?loc dn"
  have found: "?R = (case ?loc dn of Inl e \<Rightarrow> Inl e
            | Inr r \<Rightarrow> Inr \<lparr>nom = nom r, lien = lien r,
                     montant = (case node_nodeValue n of None \<Rightarrow> 0 | Some x \<Rightarrow> x)\<rparr>)"
    if "findRule a dn = Some n" for n
    using that by (simp add: regleAvecMontantSelector_def nodeValue_or_0_eq split: sum.splits)
  have 1: "?R = Inl (RuleNotFoundInAnalysis dn)
    \<longleftrightarrow> cache a dn = None \<and> (\<forall>t \<in> set (targets a). node_dottedName t \<noteq> dn)"
  proof (cases "findRule a dn")
    case None
    then show ?thesis
      using findRule_None [of a dn] by (simp add: regleAvecMontantSelector_def)
  next
    case (Some n)
    have "?R \<noteq> Inl (RuleNotFoundInAnalysis dn)"
      using regleLocaliseeSelector_errors [of rules fr dn dn]
      by (auto simp: found [OF Some] split: sum.splits)
    moreover have "\<not> (cache a dn = None \<and> (\<forall>t \<in> set (targets a). node_dottedName t \<noteq> dn))"
      using Some findRule_None [of a dn] by simp
    ultimately show ?thesis by simp
  qed
  have 2: "?R = (case ?loc dn of Inl e \<Rightarrow> Inl e
            | Inr r \<Rightarrow> Inr \<lparr>nom = nom r, lien = lien r,
                     montant = (case node_nodeValue n of None \<Rightarrow> 0 | Some x \<Rightarrow> x)\<rparr>)"
    if "cache a dn = Some n" for n
    using that by (intro found) (simp add: findRule_def)
  have 3: "?R = (case ?loc dn of Inl e \<Rightarrow> Inl e
            | Inr r \<Rightarrow> Inr \<lparr>nom = nom r, lien = lien r,
                     montant = (case node_nodeValue t of None \<Rightarrow> 0 | Some x \<Rightarrow> x)\<rparr>)"
    if "cache a dn = None" "find (\<lambda>target. node_dottedName target = dn) (targets a) = Some t" for t
    using that by (intro found) (simp add: findRule_def)
  have 4: "(\<forall>r. ?loc dn = Inr r \<longrightarrow> ?R = Inr \<lparr>nom = nom r, lien = lien r, montant = 0\<rparr>) \<and>
         (\<forall>e. ?R = Inl e \<longrightarrow> ?loc dn = Inl e)"
    if "findRule a dn = Some n" "node_nodeValue n = None \<or> node_nodeValue n = Some 0" for n
    using that found [of n] by (auto split: sum.splits)
  show ?thesis
    using 1 2 3 4 by blast
qed

theorem C9_amount_witness:
  "regleAvecMontantSelector (Some ex_analysis) (regleLocaliseeSelector ex_rules (Some ex_catalog))
      n_salaire_brut = Inr (ex_regle n_salaire_brut 2000)
   \<and> regleAvecMontantSelector (Some ex_analysis) (regleLocaliseeSelector ex_rules (Some ex_catalog))
      n_avantages_en_nature = Inr (ex_regle n_avantages_en_nature 0)
   \<and> regleAvecMontantSelector (Some ex_analysis) (regleLocaliseeSelector ex_rules (Some ex_catalog))
      ex_vieillesse = Inl (RuleNotFoundInAnalysis ex_vieillesse)"
proof -
  let ?loc = "regleLocaliseeSelector ex_rules (Some ex_catalog)"
  have c: "cache ex_analysis n_salaire_brut = Some (ex_node n_salaire_brut (Some 2000) None)"
    by (simp add: ex_analysis_def name_defs)
  have t: "cache ex_analysis n_avantages_en_nature = None"
    "find (\<lambda>target. node_dottedName target = n_avantages_en_nature) (targets ex_analysis)
       = Some (ex_node n_avantages_en_nature None None)"
    by (simp_all add: ex_analysis_def ex_node_def name_defs)
  have n: "cache ex_analysis ex_vieillesse = None"
    "\<forall>t \<in> set (targets ex_analysis). node_dottedName t \<noteq> ex_vieillesse"
    by (simp_all add: ex_analysis_def ex_node_def name_defs)
  note th = C9_amount [of ex_analysis ex_rules "Some ex_catalog"]
  from th [of n_salaire_brut] c
  have "regleAvecMontantSelector (Some ex_analysis) ?loc n_salaire_brut = Inr (ex_regle n_salaire_brut 2000)"
    by (simp add: ex_localise_names ex_regle_def ex_node_def)
  moreover from th [of n_avantages_en_nature] t
  have "regleAvecMontantSelector (Some ex_analysis) ?loc n_avantages_en_nature = Inr (ex_regle n_avantages_en_nature 0)"
    by (simp add: ex_localise_names ex_regle_def ex_node_def)
  moreover from th [of ex_vieillesse] n
  have "regleAvecMontantSelector (Some ex_analysis) ?loc ex_vieillesse = Inl (RuleNotFoundInAnalysis ex_vieillesse)"
    by blast
  ultimately show ?thesis by simp
qed

text \<open>
  Claim C10. Every bucket of \<open>groupByBranche\<close> holds the contributions of its branch in
  the reverse of their order in the input, and every contribution of the input is in the
  bucket of its branch.
\<close>

theorem C10_reversed:
  "(\<forall>b bucket. (b, Some bucket) \<in> set (groupByBranche cs) \<longrightarrow>
       bucket = rev (filter (\<lambda>c. branche c = b) cs))
   \<and> (\<forall>c \<in> set cs.
        (branche c, Some (rev (filter (\<lambda>x. branche x = branche c) cs))) \<in> set (groupByBranche cs))"
proof -
  have "bucket = rev (filter (\<lambda>c. branche c = b) cs)"
    if "(b, Some bucket) \<in> set (groupByBranche cs)" for b bucket
    using that by (auto simp: groupByBranche_eq split: if_splits)
  moreover have "(branche c, Some (rev (filter (\<lambda>x. branche x = branche c) cs))) \<in> set (groupByBranche cs)"
    if c: "c \<in> set cs" for c
  proof -
    have "branche c \<in> set COTISATION_BRANCHE_ORDER"
      by (cases "branche c") (simp_all add: COTISATION_BRANCHE_ORDER_def)
    moreover from c have "filter (\<lambda>x. branche x = branche c) cs \<noteq> []"
      by (auto simp: filter_empty_conv)
    ultimately show ?thesis
      unfolding groupByBranche_eq by (simp add: image_iff)
  qed
  ultimately show ?thesis by blast
qed

theorem C10_reversed_witness:
  "groupByBranche [ex_cotisation, ex_cotisation\<lparr>nom := ''b''\<rparr>] =
     [(Sante, None), (AccidentsDuTravail, None),
      (Retraite, Some [ex_cotisation\<lparr>nom := ''b''\<rparr>, ex_cotisation]),
      (Famille, None), (AssuranceChomage, None), (Logement, None), (Autres, None)]
   \<and> (Retraite, Some [ex_cotisation\<lparr>nom := ''b''\<rparr>, ex_cotisation])
       \<in> set (groupByBranche [ex_cotisation, ex_cotisation\<lparr>nom := ''b''\<rparr>])"
proof -
  have "ex_cotisation \<in> set [ex_cotisation, ex_cotisation\<lparr>nom := ''b''\<rparr>]" by simp
  with C10_reversed [of "[ex_cotisation, ex_cotisation\<lparr>nom := ''b''\<rparr>]"]
  have "(branche ex_cotisation,
         Some (rev (filter (\<lambda>x. branche x = branche ex_cotisation)
            [ex_cotisation, ex_cotisation\<lparr>nom := ''b''\<rparr>])))
       \<in> set (groupByBranche [ex_cotisation, ex_cotisation\<lparr>nom := ''b''\<rparr>])"
    by blast
  moreover have "groupByBranche [ex_cotisation, ex_cotisation\<lparr>nom := ''b''\<rparr>] =
     [(Sante, None), (AccidentsDuTravail, None),
      (Retraite, Some [ex_cotisation\<lparr>nom := ''b''\<rparr>, ex_cotisation]),
      (Famille, None), (AssuranceChomage, None), (Logement, None), (Autres, None)]"
    by (simp add: groupByBranche_def groupByBranche_step_def COTISATION_BRANCHE_ORDER_def
        ex_cotisation_def)
  ultimately show ?thesis by (simp add: ex_cotisation_def)
qed

end
